theory Spec2Isabelle
  imports Main "HOL-Library.Word" "HOL-Library.Sublist"
begin

section \<open>JavaScript strings\<close>

text \<open>
  A JavaScript string is a sequence of UTF-16 code units.  ASCII literals of the source are
  written \<open>js ''...''\<close>.
\<close>

type_synonym ustring = "16 word list"

definition js :: "string \<Rightarrow> ustring" where
  "js s = map of_char s"

definition dquote :: ustring where
  "dquote = [0x22]"

definition backslash :: ustring where
  "backslash = [0x5C]"

definition newline :: ustring where
  "newline = [0x0A]"

text \<open>
  The code units matched by \<open>\s\<close> in a regular expression and stripped by
  \<open>String.prototype.trim\<close>: ECMAScript's WhiteSpace and LineTerminator.
\<close>

definition isWhiteSpace :: "16 word \<Rightarrow> bool" where
  "isWhiteSpace c =
     (c \<in> {0x9, 0xA, 0xB, 0xC, 0xD, 0x20, 0xA0, 0x1680, 0x2028, 0x2029, 0x202F, 0x205F,
            0x3000, 0xFEFF}
      \<or> (0x2000 \<le> c \<and> c \<le> 0x200A))"

definition trim :: "ustring \<Rightarrow> ustring" where
  "trim s = rev (dropWhile isWhiteSpace (rev (dropWhile isWhiteSpace s)))"

text \<open>\<open>s.includes(t)\<close>\<close>

definition str_includes :: "ustring \<Rightarrow> ustring \<Rightarrow> bool" where
  "str_includes s t = sublist t s"

text \<open>
  The expansion of a replacement string by \<open>String.prototype.replace\<close> for a pattern with
  no capture groups: \<open>$$\<close> is a dollar sign, \<open>$&\<close> the matched text, \<open>$`\<close> the text before
  the match, \<open>$'\<close> the text after it; every other \<open>$\<close> stands for itself.
\<close>

fun getSubstitution :: "ustring \<Rightarrow> ustring \<Rightarrow> ustring \<Rightarrow> ustring \<Rightarrow> ustring" where
  "getSubstitution matched preceding following [] = []"
| "getSubstitution matched preceding following [c] = [c]"
| "getSubstitution matched preceding following (c # d # t) =
     (if c \<noteq> 0x24 then c # getSubstitution matched preceding following (d # t)
      else if d = 0x24 then 0x24 # getSubstitution matched preceding following t
      else if d = 0x26 then matched @ getSubstitution matched preceding following t
      else if d = 0x60 then preceding @ getSubstitution matched preceding following t
      else if d = 0x27 then following @ getSubstitution matched preceding following t
      else c # getSubstitution matched preceding following (d # t))"

text \<open>\<open>command.replace(/^sf\s+/, replacement)\<close>: the pattern is anchored and greedy.\<close>

definition replaceSf :: "ustring \<Rightarrow> ustring \<Rightarrow> ustring" where
  "replaceSf command replacement =
     (case command of
        s # f # rest \<Rightarrow>
          if s = 0x73 \<and> f = 0x66 \<and> takeWhile isWhiteSpace rest \<noteq> [] then
            (let matched = s # f # takeWhile isWhiteSpace rest;
                 following = dropWhile isWhiteSpace rest
             in getSubstitution matched [] following replacement @ following)
          else command
      | _ \<Rightarrow> command)"

text \<open>The command begins with the bare name \<open>sf\<close> followed by a whitespace code unit.\<close>

definition startsWithSf :: "ustring \<Rightarrow> bool" where
  "startsWithSf command =
     (case command of
        s # f # w # _ \<Rightarrow> s = 0x73 \<and> f = 0x66 \<and> isWhiteSpace w
      | _ \<Rightarrow> False)"

section \<open>JavaScript values and errors\<close>

text \<open>
  What \<open>JSON.parse\<close> returns.  The type \<open>'n\<close> stands for the numbers (IEEE doubles, with
  the two zeros identified: they are strictly equal and both falsy; \<open>JSON.parse\<close> returns no
  NaN).  An object is the list of its own properties, each key once.  A JavaScript value that
  may be \<open>undefined\<close> is a \<open>json option\<close>, \<open>None\<close> being \<open>undefined\<close>.

  An error that is thrown and a promise that is rejected are both the left summand of a
  result.
\<close>

datatype 'n json =
    JNull
  | JBool bool
  | JNum 'n
  | JStr ustring
  | JArr "'n json list"
  | JObj "(ustring \<times> 'n json) list"

datatype js_error =
    Error (message: ustring)
  | TypeError (message: ustring)

fun truthy :: "('n::zero) json option \<Rightarrow> bool" where
  "truthy None = False"
| "truthy (Some JNull) = False"
| "truthy (Some (JBool b)) = b"
| "truthy (Some (JNum n)) = (n \<noteq> 0)"
| "truthy (Some (JStr s)) = (s \<noteq> [])"
| "truthy (Some (JArr xs)) = True"
| "truthy (Some (JObj kvs)) = True"

text \<open>
  \<open>toString\<close> is the conversion a template literal applies, \<open>arrayJoin\<close> is
  \<open>Array.prototype.join\<close>, where \<open>null\<close> elements become the empty string.  An object that
  came out of \<open>JSON.parse\<close> with a key \<open>toString\<close> of its own has no callable conversion,
  and converting it throws a TypeError.
\<close>

fun toString :: "('n \<Rightarrow> ustring) \<Rightarrow> 'n json \<Rightarrow> js_error + ustring"
  and arrayJoin :: "('n \<Rightarrow> ustring) \<Rightarrow> ustring \<Rightarrow> 'n json list \<Rightarrow> js_error + ustring" where
  "toString f JNull = Inr (js ''null'')"
| "toString f (JBool b) = Inr (if b then js ''true'' else js ''false'')"
| "toString f (JNum n) = Inr (f n)"
| "toString f (JStr s) = Inr s"
| "toString f (JArr xs) = arrayJoin f (js '','') xs"
| "toString f (JObj kvs) =
     (if map_of kvs (js ''toString'') \<noteq> None
      then Inl (TypeError (js ''Cannot convert object to primitive value''))
      else Inr (js ''[object Object]''))"
| "arrayJoin f sep [] = Inr []"
| "arrayJoin f sep [x] = (if x = JNull then Inr [] else toString f x)"
| "arrayJoin f sep (x # y # ys) =
     (case (if x = JNull then Inr [] else toString f x) of
        Inl e \<Rightarrow> Inl e
      | Inr s \<Rightarrow>
        (case arrayJoin f sep (y # ys) of
           Inl e \<Rightarrow> Inl e
         | Inr r \<Rightarrow> Inr (s @ sep @ r)))"

fun toStringU :: "('n \<Rightarrow> ustring) \<Rightarrow> 'n json option \<Rightarrow> js_error + ustring" where
  "toStringU f None = Inr (js ''undefined'')"
| "toStringU f (Some v) = toString f v"

text \<open>
  Reading a property that no prototype defines (\<open>message\<close>, \<open>actions\<close>, \<open>stack\<close>,
  \<open>defaultusername\<close>, \<open>status\<close>, \<open>exitCode\<close>, \<open>name\<close>): a TypeError on \<open>null\<close>, the own
  property of an object, \<open>undefined\<close> on everything else.
\<close>

fun getProp :: "'n json \<Rightarrow> ustring \<Rightarrow> js_error + 'n json option" where
  "getProp JNull k =
     Inl (TypeError (js ''Cannot read properties of null (reading '' @ [0x27] @ k @ [0x27] @ js '')''))"
| "getProp (JObj kvs) k = Inr (map_of kvs k)"
| "getProp v k = Inr None"

text \<open>\<open>v.join(sep)\<close> on a truthy value out of \<open>JSON.parse\<close>: only arrays have the method.\<close>

fun callJoin :: "('n \<Rightarrow> ustring) \<Rightarrow> 'n json option \<Rightarrow> ustring \<Rightarrow> js_error + ustring" where
  "callJoin f (Some (JArr xs)) sep = arrayJoin f sep xs"
| "callJoin f v sep = Inl (TypeError (js ''join is not a function''))"

text \<open>\<open>v === 1\<close>\<close>

fun isOne :: "('n::one) json option \<Rightarrow> bool" where
  "isOne (Some (JNum n)) = (n = 1)"
| "isOne v = False"

section \<open>The environment of the process\<close>

datatype platform =
  Aix | Android | Darwin | FreeBSD | Haiku | Linux | OpenBSD | SunOS | Win32 | Cygwin | NetBSD

text \<open>
  The values of \<open>os.platform()\<close>, the library functions the module imports, and the two
  environment variables it reads.  The functions are parameters: nothing is assumed of the
  file system, of the paths, of the parser or of the child process.
  \<open>fs_statSync\<close> returns \<open>isDirectory()\<close> of the entry; \<open>JSON_parse\<close> is \<open>None\<close> where it
  throws a SyntaxError; \<open>child_exec\<close> gives the three arguments of the callback of \<open>exec\<close>.
\<close>

record 'n env =
  os_platform :: platform
  env_HOME :: "ustring option"
  env_LOCALAPPDATA :: "ustring option"
  fs_existsSync :: "ustring \<Rightarrow> bool"
  fs_statSync :: "ustring \<Rightarrow> js_error + bool"
  fs_readFileSync :: "ustring \<Rightarrow> js_error + ustring"
  path_resolve :: "ustring \<Rightarrow> ustring"
  path_join :: "ustring list \<Rightarrow> ustring"
  JSON_parse :: "ustring \<Rightarrow> 'n json option"
  numToString :: "'n \<Rightarrow> ustring"
  child_exec :: "ustring \<Rightarrow> js_error option \<times> ustring \<times> ustring"

text \<open>
  The state of the process: the module variable \<open>cachedSfPath\<close>, and the log of the calls
  made to the file system and to \<open>exec\<close>.  The log is written and never read: it is there to
  state which calls a function makes.
\<close>

datatype event =
    ExistsSync ustring
  | StatSync ustring
  | ReadFileSync ustring
  | Exec ustring

record process =
  cachedSfPath :: "ustring option"
  events :: "event list"

definition logEvent :: "event \<Rightarrow> process \<Rightarrow> process" where
  "logEvent e st = st\<lparr>events := events st @ [e]\<rparr>"

section \<open>Executable resolver\<close>

text \<open>\<open>process.env.X + rest\<close>: an unset variable concatenates as \<open>undefined\<close>.\<close>

definition envPlus :: "ustring option \<Rightarrow> ustring \<Rightarrow> ustring" where
  "envPlus v rest = (case v of None \<Rightarrow> js ''undefined'' | Some s \<Rightarrow> s) @ rest"

definition COMMON_SF_PATHS_darwin :: "'n env \<Rightarrow> ustring list" where
  "COMMON_SF_PATHS_darwin env =
     [js ''/usr/local/bin/sf'',
      js ''/opt/homebrew/bin/sf'',
      js ''/usr/bin/sf'',
      envPlus (env_HOME env) (js ''/.local/bin/sf'')]"

definition COMMON_SF_PATHS_linux :: "'n env \<Rightarrow> ustring list" where
  "COMMON_SF_PATHS_linux env =
     [js ''/usr/local/bin/sf'',
      js ''/usr/bin/sf'',
      js ''/opt/salesforce/cli/bin/sf'',
      envPlus (env_HOME env) (js ''/.local/bin/sf'')]"

definition COMMON_SF_PATHS_win32 :: "'n env \<Rightarrow> ustring list" where
  "COMMON_SF_PATHS_win32 env =
     [js ''C:'' @ backslash @ js ''Program Files'' @ backslash @ js ''sf'' @ backslash
        @ js ''bin'' @ backslash @ js ''sf.cmd'',
      js ''C:'' @ backslash @ js ''Program Files'' @ backslash @ js ''sf'' @ backslash
        @ js ''bin'' @ backslash @ js ''sf.exe'',
      js ''C:'' @ backslash @ js ''Program Files (x86)'' @ backslash @ js ''sf'' @ backslash
        @ js ''bin'' @ backslash @ js ''sf.cmd'',
      js ''C:'' @ backslash @ js ''Program Files (x86)'' @ backslash @ js ''sf'' @ backslash
        @ js ''bin'' @ backslash @ js ''sf.exe'',
      envPlus (env_LOCALAPPDATA env)
        (backslash @ js ''sf'' @ backslash @ js ''bin'' @ backslash @ js ''sf.cmd''),
      envPlus (env_LOCALAPPDATA env)
        (backslash @ js ''sf'' @ backslash @ js ''bin'' @ backslash @ js ''sf.exe'')]"

text \<open>\<open>COMMON_SF_PATHS[currentPlatform]\<close>, \<open>None\<close> where the object has no such key.\<close>

definition COMMON_SF_PATHS :: "'n env \<Rightarrow> platform \<Rightarrow> ustring list option" where
  "COMMON_SF_PATHS env p =
     (case p of
        Darwin \<Rightarrow> Some (COMMON_SF_PATHS_darwin env)
      | Linux \<Rightarrow> Some (COMMON_SF_PATHS_linux env)
      | Win32 \<Rightarrow> Some (COMMON_SF_PATHS_win32 env)
      | _ \<Rightarrow> None)"

definition pathsToCheck :: "'n env \<Rightarrow> ustring list" where
  "pathsToCheck env =
     (case COMMON_SF_PATHS env (os_platform env) of
        Some paths \<Rightarrow> paths
      | None \<Rightarrow> COMMON_SF_PATHS_linux env)"

text \<open>
  The loop of \<open>findSfPath\<close>: \<open>Some path\<close> where the loop returns, with the cache written,
  \<open>None\<close> where it runs to its end.
\<close>

fun findSfPath_loop :: "'n env \<Rightarrow> ustring list \<Rightarrow> process \<Rightarrow> ustring option \<times> process" where
  "findSfPath_loop env [] st = (None, st)"
| "findSfPath_loop env (path # rest) st =
     (if path = [] then findSfPath_loop env rest st
      else
        (let st1 = logEvent (ExistsSync path) st
         in if fs_existsSync env path then (Some path, st1\<lparr>cachedSfPath := Some path\<rparr>)
            else findSfPath_loop env rest st1))"

definition findSfPath :: "'n env \<Rightarrow> process \<Rightarrow> ustring \<times> process" where
  "findSfPath env st =
     (case cachedSfPath st of
        Some (c # cs) \<Rightarrow> (c # cs, st)
      | _ \<Rightarrow>
        (case findSfPath_loop env (pathsToCheck env) st of
           (Some path, st1) \<Rightarrow> (path, st1)
         | (None, st1) \<Rightarrow> (js ''sf'', st1\<lparr>cachedSfPath := Some (js ''sf'')\<rparr>)))"

text \<open>The commands passed to \<open>exec\<close> in a list of events, and between two states.\<close>

definition execsOf :: "event list \<Rightarrow> ustring list" where
  "execsOf evs = concat (map (\<lambda>e. case e of Exec c \<Rightarrow> [c] | _ \<Rightarrow> []) evs)"

definition spawned :: "process \<Rightarrow> process \<Rightarrow> ustring list" where
  "spawned st st' = execsOf (drop (length (events st)) (events st'))"

section \<open>Process invoker\<close>

definition sfNotFound :: js_error where
  "sfNotFound =
     Error (js ''Salesforce CLI (sf) not found. Please ensure it is installed and accessible. ''
            @ js ''Visit https://developer.salesforce.com/tools/salesforcecli for installation instructions.'')"

definition isNotFoundMessage :: "ustring \<Rightarrow> bool" where
  "isNotFoundMessage m =
     (str_includes m (js ''command not found'') \<or> str_includes m (js ''is not recognized''))"

text \<open>
  The body of the \<open>try\<close> blocks of \<open>executeSfCommand\<close> after the parse: \<open>Inr\<close> the detailed
  message, \<open>Inl\<close> where the block throws.
\<close>

definition detailedMessage :: "('n::zero) env \<Rightarrow> 'n json \<Rightarrow> js_error + ustring" where
  "detailedMessage env errorDetails =
     (case getProp errorDetails (js ''message'') of
        Inl e \<Rightarrow> Inl e
      | Inr msg \<Rightarrow>
        (case toStringU (numToString env) msg of
           Inl e \<Rightarrow> Inl e
         | Inr msgText \<Rightarrow>
           (case getProp errorDetails (js ''actions'') of
              Inl e \<Rightarrow> Inl e
            | Inr actions \<Rightarrow>
              (case (if truthy actions then
                       (case callJoin (numToString env) actions newline of
                          Inl e \<Rightarrow> Inl e
                        | Inr joined \<Rightarrow> Inr (js ''Actions: '' @ joined @ newline))
                     else Inr []) of
                 Inl e \<Rightarrow> Inl e
               | Inr actionsText \<Rightarrow>
                 (case getProp errorDetails (js ''stack'') of
                    Inl e \<Rightarrow> Inl e
                  | Inr stack \<Rightarrow>
                    (case (if truthy stack then
                             (case toStringU (numToString env) stack of
                                Inl e \<Rightarrow> Inl e
                              | Inr stackText \<Rightarrow> Inr (js ''Stack: '' @ stackText))
                           else Inr []) of
                       Inl e \<Rightarrow> Inl e
                     | Inr stackPart \<Rightarrow>
                         Inr (js ''Error: '' @ msgText @ newline @ actionsText @ stackPart)))))))"

text \<open>The callback \<open>executeSfCommand\<close> passes to \<open>exec\<close>.\<close>

definition executeSfCommand_callback ::
  "('n::zero) env \<Rightarrow> js_error option \<Rightarrow> ustring \<Rightarrow> ustring \<Rightarrow> js_error + 'n json" where
  "executeSfCommand_callback env error stdout stderr =
     (case (if stdout \<noteq> [] then JSON_parse env stdout else None) of
        Some result \<Rightarrow> Inr result
      | None \<Rightarrow>
        (case error of
           Some err \<Rightarrow>
             if isNotFoundMessage (message err) then Inl sfNotFound
             else
               (case JSON_parse env stderr of
                  None \<Rightarrow> Inl err
                | Some errorDetails \<Rightarrow>
                  (case detailedMessage env errorDetails of
                     Inl _ \<Rightarrow> Inl err
                   | Inr m \<Rightarrow> Inl (Error m)))
         | None \<Rightarrow>
             if stderr \<noteq> [] \<and> \<not> str_includes stderr (js ''Warning'') then
               (case JSON_parse env stderr of
                  None \<Rightarrow> Inl (Error stderr)
                | Some errorDetails \<Rightarrow>
                  (case detailedMessage env errorDetails of
                     Inl _ \<Rightarrow> Inl (Error stderr)
                   | Inr m \<Rightarrow> Inl (Error m)))
             else Inl (Error (js ''No output received from command''))))"

definition executeSfCommand ::
  "('n::zero) env \<Rightarrow> ustring \<Rightarrow> process \<Rightarrow> (js_error + 'n json) \<times> process" where
  "executeSfCommand env command st =
     (case findSfPath env st of
        (sfPath, st1) \<Rightarrow>
          (let fullCommand = replaceSf command (dquote @ sfPath @ dquote @ js '' '')
           in case child_exec env fullCommand of
                (error, stdout, stderr) \<Rightarrow>
                  (executeSfCommand_callback env error stdout stderr,
                   logEvent (Exec fullCommand) st1)))"

text \<open>The callback \<open>executeSfCommandRaw\<close> passes to \<open>exec\<close>; it reads \<open>command\<close>.\<close>

definition executeSfCommandRaw_callback ::
  "ustring \<Rightarrow> js_error option \<Rightarrow> ustring \<Rightarrow> ustring \<Rightarrow> js_error + ustring" where
  "executeSfCommandRaw_callback command error stdout stderr =
     (case error of
        Some err \<Rightarrow>
          if isNotFoundMessage (message err) then Inl sfNotFound
          else if stdout \<noteq> []
                  \<and> (str_includes command (js ''scanner'')
                     \<or> str_includes command (js ''code-analyzer''))
          then Inr stdout
          else Inl err
      | None \<Rightarrow> Inr stdout)"

definition executeSfCommandRaw ::
  "'n env \<Rightarrow> ustring \<Rightarrow> process \<Rightarrow> (js_error + ustring) \<times> process" where
  "executeSfCommandRaw env command st =
     (case findSfPath env st of
        (sfPath, st1) \<Rightarrow>
          (let fullCommand = replaceSf command (dquote @ sfPath @ dquote @ js '' '')
           in case child_exec env fullCommand of
                (error, stdout, stderr) \<Rightarrow>
                  (executeSfCommandRaw_callback command error stdout stderr,
                   logEvent (Exec fullCommand) st1)))"

section \<open>Project configuration and precondition validator\<close>

definition getDefaultUsername ::
  "'n env \<Rightarrow> ustring \<Rightarrow> process \<Rightarrow> 'n json option \<times> process" where
  "getDefaultUsername env projectPath st =
     (let resolvedPath = path_resolve env projectPath;
          configPath = path_join env [resolvedPath, js ''.sfdx'', js ''sfdx-config.json''];
          st1 = logEvent (ExistsSync configPath) st
      in if \<not> fs_existsSync env configPath then (None, st1)
         else
           (let st2 = logEvent (ReadFileSync configPath) st1
            in case fs_readFileSync env configPath of
                 Inl _ \<Rightarrow> (None, st2)
               | Inr configContent \<Rightarrow>
                 (case JSON_parse env configContent of
                    None \<Rightarrow> (None, st2)
                  | Some config \<Rightarrow>
                    (case getProp config (js ''defaultusername'') of
                       Inl _ \<Rightarrow> (None, st2)
                     | Inr v \<Rightarrow> (v, st2)))))"

definition validateProjectPath ::
  "'n env \<Rightarrow> ustring \<Rightarrow> process \<Rightarrow> (js_error + unit) \<times> process" where
  "validateProjectPath env projectPath st =
     (if projectPath = [] \<or> trim projectPath = [] then
        (Inl (Error (js ''Project path cannot be empty'')), st)
      else
        (let resolvedPath = path_resolve env projectPath;
             st1 = logEvent (ExistsSync resolvedPath) st
         in if \<not> fs_existsSync env resolvedPath then
              (Inl (Error (js ''Project path does not exist: '' @ resolvedPath)), st1)
            else
              (let st2 = logEvent (StatSync resolvedPath) st1
               in case (case fs_statSync env resolvedPath of
                          Inl e \<Rightarrow> Inl e
                        | Inr isDirectory \<Rightarrow>
                            if \<not> isDirectory then
                              Inl (Error (js ''Project path is not a directory: '' @ resolvedPath))
                            else Inr ()) of
                    Inl error \<Rightarrow>
                      (Inl (Error (js ''Cannot access project path: '' @ message error)), st2)
                  | Inr _ \<Rightarrow>
                      (let sfConfigPath = path_join env [resolvedPath, js ''.sf''];
                           st3 = logEvent (ExistsSync sfConfigPath) st2
                       in if \<not> fs_existsSync env sfConfigPath then
                            (Inl (Error (js ''Project path does not contain .sf directory. ''
                                         @ js ''Please ensure this is a valid Salesforce DX project: ''
                                         @ resolvedPath)), st3)
                          else (Inr (), st3)))))"

section \<open>Project-scoped invokers\<close>

text \<open>The command line with the directory change in front.\<close>

definition cdCommand :: "platform \<Rightarrow> ustring \<Rightarrow> ustring \<Rightarrow> ustring" where
  "cdCommand p resolvedPath sfCommand =
     (if p = Win32 then js ''cd /d '' @ dquote @ resolvedPath @ dquote @ js '' && '' @ sfCommand
      else js ''cd '' @ dquote @ resolvedPath @ dquote @ js '' && '' @ sfCommand)"

text \<open>The callback \<open>executeSfCommandInProject\<close> passes to \<open>exec\<close>.\<close>

definition executeSfCommandInProject_callback ::
  "'n env \<Rightarrow> js_error option \<Rightarrow> ustring \<Rightarrow> ustring \<Rightarrow> js_error + 'n json" where
  "executeSfCommandInProject_callback env error stdout stderr =
     (case (if stdout \<noteq> [] then JSON_parse env stdout else None) of
        Some result \<Rightarrow> Inr result
      | None \<Rightarrow>
        (case error of
           Some err \<Rightarrow>
             if isNotFoundMessage (message err) then Inl sfNotFound else Inl err
         | None \<Rightarrow>
             if stderr \<noteq> [] \<and> \<not> str_includes stderr (js ''Warning'') then Inl (Error stderr)
             else Inl (Error (js ''No output received from command''))))"

definition executeSfCommandInProject ::
  "'n env \<Rightarrow> ustring \<Rightarrow> ustring \<Rightarrow> process \<Rightarrow> (js_error + 'n json) \<times> process" where
  "executeSfCommandInProject env command projectPath st =
     (case validateProjectPath env projectPath st of
        (Inl e, st0) \<Rightarrow> (Inl e, st0)
      | (Inr _, st0) \<Rightarrow>
        (case findSfPath env st0 of
           (sfPath, st1) \<Rightarrow>
             (let resolvedPath = path_resolve env projectPath;
                  sfCommand = replaceSf command (dquote @ sfPath @ dquote @ js '' '');
                  fullCommand = cdCommand (os_platform env) resolvedPath sfCommand
              in case child_exec env fullCommand of
                   (error, stdout, stderr) \<Rightarrow>
                     (executeSfCommandInProject_callback env error stdout stderr,
                      logEvent (Exec fullCommand) st1))))"

text \<open>
  The \<open>try\<close> block of \<open>executeSfCommandInProjectRaw\<close>: \<open>Some m\<close> where it rejects with the
  message \<open>m\<close>, \<open>None\<close> where control falls through to \<open>reject(error)\<close>.
\<close>

definition jsonErrorMessage :: "('n::{zero,one}) env \<Rightarrow> ustring \<Rightarrow> ustring option" where
  "jsonErrorMessage env stdout =
     (case JSON_parse env stdout of
        None \<Rightarrow> None
      | Some jsonResult \<Rightarrow>
        (case getProp jsonResult (js ''status'') of
           Inl _ \<Rightarrow> None
         | Inr status \<Rightarrow>
           if isOne status \<or> (case getProp jsonResult (js ''exitCode'') of
                                 Inl _ \<Rightarrow> False | Inr exitCode \<Rightarrow> isOne exitCode) then
             (let msg = (case getProp jsonResult (js ''message'') of Inl _ \<Rightarrow> None | Inr v \<Rightarrow> v);
                  name = (case getProp jsonResult (js ''name'') of Inl _ \<Rightarrow> None | Inr v \<Rightarrow> v);
                  actions = (case getProp jsonResult (js ''actions'') of Inl _ \<Rightarrow> None | Inr v \<Rightarrow> v);
                  stack = (case getProp jsonResult (js ''stack'') of Inl _ \<Rightarrow> None | Inr v \<Rightarrow> v);
                  errorMessage = (if truthy msg then msg
                                  else if truthy name then name
                                  else Some (JStr (js ''Command failed'')))
              in case (if truthy actions then
                         (case callJoin (numToString env) actions newline of
                            Inl e \<Rightarrow> Inl e
                          | Inr joined \<Rightarrow>
                              Inr (newline @ js ''Suggested actions:'' @ newline @ joined))
                       else Inr []) of
                   Inl _ \<Rightarrow> None
                 | Inr actionsText \<Rightarrow>
                   (case (if truthy stack then
                            (case toStringU (numToString env) stack of
                               Inl e \<Rightarrow> Inl e
                             | Inr stackText \<Rightarrow>
                                 Inr (newline @ js ''Stack trace:'' @ newline @ stackText))
                          else Inr []) of
                      Inl _ \<Rightarrow> None
                    | Inr stackPart \<Rightarrow>
                      (case toStringU (numToString env) errorMessage of
                         Inl _ \<Rightarrow> None
                       | Inr text \<Rightarrow> Some (text @ actionsText @ stackPart))))
           else None))"

text \<open>The callback \<open>executeSfCommandInProjectRaw\<close> passes to \<open>exec\<close>; it reads \<open>command\<close>.\<close>

definition executeSfCommandInProjectRaw_callback ::
  "('n::{zero,one}) env \<Rightarrow> ustring \<Rightarrow> js_error option \<Rightarrow> ustring \<Rightarrow> ustring
    \<Rightarrow> js_error + ustring" where
  "executeSfCommandInProjectRaw_callback env command error stdout stderr =
     (case error of
        Some err \<Rightarrow>
          if isNotFoundMessage (message err) then Inl sfNotFound
          else if stdout \<noteq> []
                  \<and> (str_includes command (js ''scanner'')
                     \<or> str_includes command (js ''code-analyzer''))
          then Inr stdout
          else
            (case (if stdout \<noteq> [] \<and> str_includes command (js ''--json'')
                   then jsonErrorMessage env stdout else None) of
               Some m \<Rightarrow> Inl (Error m)
             | None \<Rightarrow> Inl err)
      | None \<Rightarrow> Inr stdout)"

definition executeSfCommandInProjectRaw ::
  "('n::{zero,one}) env \<Rightarrow> ustring \<Rightarrow> ustring \<Rightarrow> process \<Rightarrow> (js_error + ustring) \<times> process" where
  "executeSfCommandInProjectRaw env command projectPath st =
     (case validateProjectPath env projectPath st of
        (Inl e, st0) \<Rightarrow> (Inl e, st0)
      | (Inr _, st0) \<Rightarrow>
        (case findSfPath env st0 of
           (sfPath, st1) \<Rightarrow>
             (let resolvedPath = path_resolve env projectPath;
                  sfCommand = replaceSf command (dquote @ sfPath @ dquote @ js '' '');
                  fullCommand = cdCommand (os_platform env) resolvedPath sfCommand
              in case child_exec env fullCommand of
                   (error, stdout, stderr) \<Rightarrow>
                     (executeSfCommandInProjectRaw_callback env command error stdout stderr,
                      logEvent (Exec fullCommand) st1))))"

section \<open>Command builder\<close>

text \<open>
  \<open>targetOrg\<close> and \<open>sourcePath\<close> are strings or \<open>undefined\<close>.  After the fallback
  \<open>orgToUse\<close> is whatever the configuration file holds, and calling \<open>trim\<close> on a truthy value
  that is no string throws.
\<close>

definition buildSfCommand ::
  "('n::zero) env \<Rightarrow> ustring \<Rightarrow> ustring option \<Rightarrow> ustring option \<Rightarrow> process
    \<Rightarrow> (js_error + ustring) \<times> process" where
  "buildSfCommand env baseCommand targetOrg sourcePath st =
     (case (case sourcePath of
              Some (c # cs) \<Rightarrow>
                if (case targetOrg of None \<Rightarrow> True | Some org \<Rightarrow> org = [] \<or> trim org = [])
                then getDefaultUsername env (c # cs) st
                else (map_option JStr targetOrg, st)
            | _ \<Rightarrow> (map_option JStr targetOrg, st)) of
        (orgToUse, st1) \<Rightarrow>
          (case (if truthy orgToUse then
                   (case orgToUse of
                      Some (JStr org) \<Rightarrow>
                        Inr (if trim org \<noteq> [] then baseCommand @ js '' --target-org '' @ org
                             else baseCommand)
                    | _ \<Rightarrow> Inl (TypeError (js ''orgToUse.trim is not a function'')))
                 else Inr baseCommand) of
             Inl e \<Rightarrow> (Inl e, st1)
           | Inr command \<Rightarrow>
               (Inr (if \<not> str_includes command (js ''--json'') then command @ js '' --json''
                     else command), st1)))"


section \<open>Example environments\<close>

definition startState :: process where
  "startState = \<lparr>cachedSfPath = None, events = []\<rparr>"

fun joinSlash :: "ustring list \<Rightarrow> ustring" where
  "joinSlash [] = js ''.''"
| "joinSlash [p] = p"
| "joinSlash (p # q # ps) = p @ js ''/'' @ joinSlash (q # ps)"

definition stackTrace :: ustring where
  "stackTrace = js ''Error: No org found'' @ newline @ js ''    at run (org.js:1)''"

definition errorJson :: ustring where
  \<open>errorJson =
     js ''{"message":"No org found","actions":["Run sf org login","Retry"],''
     @ js ''"stack":"Error: No org found'' @ backslash @ js ''n    at run (org.js:1)"}''\<close>

definition errorPayload :: "int json" where
  "errorPayload =
     JObj [(js ''message'', JStr (js ''No org found'')),
           (js ''actions'', JArr [JStr (js ''Run sf org login''), JStr (js ''Retry'')]),
           (js ''stack'', JStr stackTrace)]"

definition statusJson :: ustring where
  \<open>statusJson = js ''{"status":1}''\<close>

definition statusPayload :: "int json" where
  "statusPayload = JObj [(js ''status'', JNum 1)]"

definition exampleParse :: "ustring \<Rightarrow> int json option" where
  "exampleParse s =
     (if s = errorJson then Some errorPayload
      else if s = statusJson then Some statusPayload
      else None)"

definition noEntry :: js_error where
  "noEntry = Error (js ''ENOENT: no such file or directory'')"

definition exampleEnv :: "int env" where
  "exampleEnv =
     \<lparr>os_platform = Linux,
      env_HOME = Some (js ''/home/dev''),
      env_LOCALAPPDATA = None,
      fs_existsSync = (\<lambda>p. p = js ''/usr/bin/sf'' \<or> p = js ''/opt/salesforce/cli/bin/sf''
                          \<or> p = js ''/proj'' \<or> p = js ''/proj/.sf'' \<or> p = js ''/etc/hosts''
                          \<or> p = js ''/tmp'' \<or> p = js ''/work'' \<or> p = js ''/work/.sf''),
      fs_statSync = (\<lambda>p. if p = js ''/proj'' \<or> p = js ''/proj/.sf'' \<or> p = js ''/tmp''
                            \<or> p = js ''/work'' then Inr True
                         else if p = js ''/usr/bin/sf'' \<or> p = js ''/opt/salesforce/cli/bin/sf''
                                 \<or> p = js ''/etc/hosts'' \<or> p = js ''/work/.sf'' then Inr False
                         else Inl noEntry),
      fs_readFileSync = (\<lambda>p. Inl noEntry),
      path_resolve = (\<lambda>p. p),
      path_join = joinSlash,
      JSON_parse = exampleParse,
      numToString = (\<lambda>n. if n = 1 then js ''1'' else js ''0''),
      child_exec = (\<lambda>c. (None, [], []))\<rparr>"

text \<open>
  What \<open>exec\<close> passes to its callback when the child exits with a code other than zero: the
  message of the error holds the command and the text of the error channel.
\<close>

definition execFailure ::
  "ustring \<Rightarrow> ustring \<Rightarrow> ustring \<Rightarrow> js_error option \<times> ustring \<times> ustring" where
  "execFailure stdout stderr cmd =
     (Some (Error (js ''Command failed: '' @ cmd @ newline @ stderr)), stdout, stderr)"

definition failingEnv :: "int env" where
  "failingEnv = exampleEnv\<lparr>child_exec := execFailure statusJson (js ''Error: no org'')\<rparr>"

definition warningEnv :: "int env" where
  "warningEnv =
     exampleEnv\<lparr>child_exec := \<lambda>c. (None, [], js ''Warning: update available. Error: no org'')\<rparr>"

definition stderrJsonEnv :: "int env" where
  "stderrJsonEnv = exampleEnv\<lparr>child_exec := execFailure [] errorJson\<rparr>"

definition scannerEnv :: "int env" where
  "scannerEnv = exampleEnv\<lparr>child_exec := execFailure (js ''3 violations'') []\<rparr>"

definition scannerNotFoundEnv :: "int env" where
  "scannerNotFoundEnv =
     exampleEnv\<lparr>child_exec :=
       execFailure (js ''3 violations'') (js ''/bin/sh: pmd: command not found'')\<rparr>"

definition sfOrgList :: ustring where
  "sfOrgList = dquote @ js ''/usr/bin/sf'' @ dquote @ js '' org list''"

definition sfScannerRun :: ustring where
  "sfScannerRun = dquote @ js ''/usr/bin/sf'' @ dquote @ js '' scanner run''"

definition inProj :: "ustring \<Rightarrow> ustring" where
  "inProj c = js ''cd '' @ dquote @ js ''/proj'' @ dquote @ js '' && '' @ c"



section \<open>The executable resolver: properties\<close>

lemma findSfPath_loop_find:
  "fst (findSfPath_loop env ps st) = List.find (\<lambda>p. p \<noteq> [] \<and> fs_existsSync env p) ps"
  by (induction ps arbitrary: st) (auto simp: Let_def)

lemma findSfPath_loop_Some:
  "findSfPath_loop env ps st = (Some p, st1) \<Longrightarrow> p \<noteq> [] \<and> cachedSfPath st1 = Some p"
  by (induction ps arbitrary: st) (auto simp: Let_def split: if_splits)

lemma findSfPath_cached:
  "findSfPath env st = (r, st1) \<Longrightarrow> r \<noteq> [] \<and> cachedSfPath st1 = Some r"
  by (auto simp: findSfPath_def js_def split: option.splits list.splits prod.splits dest: findSfPath_loop_Some)

lemma js_nonempty: "s \<noteq> [] \<Longrightarrow> js s \<noteq> []" by (simp add: js_def)

lemma COMMON_SF_PATHS_nonempty:
  "COMMON_SF_PATHS env p = Some cands \<Longrightarrow> [] \<notin> set cands"
  by (auto simp: COMMON_SF_PATHS_def COMMON_SF_PATHS_darwin_def COMMON_SF_PATHS_linux_def
      COMMON_SF_PATHS_win32_def envPlus_def js_def backslash_def split: platform.splits)

lemma supported_platforms:
  "(\<exists>cands. COMMON_SF_PATHS env p = Some cands) \<longleftrightarrow> p \<in> {Darwin, Linux, Win32}"
  by (cases p) (simp_all add: COMMON_SF_PATHS_def)

lemma findSfPath_fresh:
  assumes "cachedSfPath st = None" "COMMON_SF_PATHS env (os_platform env) = Some cands"
  shows "fst (findSfPath env st) =
    (case List.find (fs_existsSync env) cands of Some p \<Rightarrow> p | None \<Rightarrow> js ''sf'')"
proof -
  have ne: "[] \<notin> set cands" using assms(2) by (rule COMMON_SF_PATHS_nonempty)
  have "List.find (\<lambda>p. p \<noteq> [] \<and> fs_existsSync env p) cands = List.find (fs_existsSync env) cands"
    using ne by (induction cands) auto
  then have "fst (findSfPath_loop env cands st) = List.find (fs_existsSync env) cands"
    by (simp add: findSfPath_loop_find)
  then show ?thesis using assms
    by (auto simp: findSfPath_def pathsToCheck_def split: prod.splits option.splits)
qed

text \<open>
  Claim C5.  On a supported platform (one with a list of its own in \<open>COMMON_SF_PATHS\<close>) and
  with the cache still unset, \<open>findSfPath\<close> returns the first candidate of that platform's
  list that exists on the file system, and the bare name \<open>sf\<close> when no candidate exists.
\<close>

theorem findSfPath_first_existing:
  assumes "cachedSfPath st = None"
    and "COMMON_SF_PATHS env (os_platform env) = Some cands"
  shows "(\<forall>i < length cands. fs_existsSync env (cands ! i) \<and> (\<forall>j < i. \<not> fs_existsSync env (cands ! j))
            \<longrightarrow> fst (findSfPath env st) = cands ! i)
       \<and> ((\<forall>p \<in> set cands. \<not> fs_existsSync env p) \<longrightarrow> fst (findSfPath env st) = js ''sf'')"
proof (intro conjI allI impI)
  fix i assume i: "i < length cands"
    and h: "fs_existsSync env (cands ! i) \<and> (\<forall>j < i. \<not> fs_existsSync env (cands ! j))"
  then have "List.find (fs_existsSync env) cands = Some (cands ! i)"
    unfolding find_Some_iff by blast
  then show "fst (findSfPath env st) = cands ! i"
    by (simp add: findSfPath_fresh[OF assms])
next
  assume "\<forall>p \<in> set cands. \<not> fs_existsSync env p"
  then have "List.find (fs_existsSync env) cands = None"
    by (simp add: find_None_iff)
  then show "fst (findSfPath env st) = js ''sf''"
    by (simp add: findSfPath_fresh[OF assms])
qed

theorem findSfPath_first_existing_witness:
  "fst (findSfPath exampleEnv startState) = js ''/usr/bin/sf''
   \<and> fst (findSfPath (exampleEnv\<lparr>fs_existsSync := \<lambda>p. False\<rparr>) startState) = js ''sf''"
proof
  have c: "cachedSfPath startState = None" by (simp add: startState_def)
  have p: "COMMON_SF_PATHS exampleEnv (os_platform exampleEnv)
             = Some (COMMON_SF_PATHS_linux exampleEnv)"
    by (simp add: exampleEnv_def COMMON_SF_PATHS_def)
  have len: "1 < length (COMMON_SF_PATHS_linux exampleEnv)"
    by (simp add: COMMON_SF_PATHS_linux_def)
  have h: "fs_existsSync exampleEnv (COMMON_SF_PATHS_linux exampleEnv ! 1)
           \<and> (\<forall>j < 1. \<not> fs_existsSync exampleEnv (COMMON_SF_PATHS_linux exampleEnv ! j))"
    by (simp add: COMMON_SF_PATHS_linux_def exampleEnv_def js_def)
  have "fst (findSfPath exampleEnv startState) = COMMON_SF_PATHS_linux exampleEnv ! 1"
    using findSfPath_first_existing[OF c p] len h by blast
  then show "fst (findSfPath exampleEnv startState) = js ''/usr/bin/sf''"
    by (simp add: COMMON_SF_PATHS_linux_def)
next
  let ?env = "exampleEnv\<lparr>fs_existsSync := \<lambda>p. False\<rparr>"
  have c: "cachedSfPath startState = None" by (simp add: startState_def)
  have p: "COMMON_SF_PATHS ?env (os_platform ?env) = Some (COMMON_SF_PATHS_linux ?env)"
    by (simp add: exampleEnv_def COMMON_SF_PATHS_def)
  have h: "\<forall>p \<in> set (COMMON_SF_PATHS_linux ?env). \<not> fs_existsSync ?env p" by simp
  show "fst (findSfPath ?env startState) = js ''sf''"
    using findSfPath_first_existing[OF c p] h by blast
qed

text \<open>
  Claim C6.  The cache of the resolver is never invalidated: a second call of \<open>findSfPath\<close>,
  in any environment (so after any change of the file system, of the platform or of the
  variables), returns the value of the first call and leaves the state of the process as the
  first call left it: the cache keeps its value and no call to the file system is logged.
\<close>

theorem findSfPath_cache_never_invalidated:
  "findSfPath env2 (snd (findSfPath env1 st)) = findSfPath env1 st"
proof -
  obtain r st1 where eq: "findSfPath env1 st = (r, st1)" by (cases "findSfPath env1 st")
  from findSfPath_cached[OF eq] obtain c cs where "r = c # cs" "cachedSfPath st1 = Some (c # cs)"
    by (cases r) auto
  then have "findSfPath env2 st1 = (r, st1)" by (simp add: findSfPath_def)
  then show ?thesis by (simp add: eq)
qed

section \<open>The invokers: properties\<close>

lemma spawned_append: "events st' = events st @ evs \<Longrightarrow> spawned st st' = execsOf evs"
  by (simp add: spawned_def)

lemma execsOf_simps:
  "execsOf [] = []"
  "execsOf (evs @ evs') = execsOf evs @ execsOf evs'"
  "execsOf (Exec c # evs) = c # execsOf evs"
  "execsOf (ExistsSync p # evs) = execsOf evs"
  "execsOf (StatSync p # evs) = execsOf evs"
  "execsOf (ReadFileSync p # evs) = execsOf evs"
  by (simp_all add: execsOf_def)

lemma findSfPath_loop_events:
  "\<exists>evs. events (snd (findSfPath_loop env ps st)) = events st @ evs \<and> execsOf evs = []"
proof (induction ps arbitrary: st)
  case Nil
  show ?case by (simp add: execsOf_simps)
next
  case (Cons p ps)
  show ?case
  proof (cases "p = []")
    case True
    then show ?thesis using Cons.IH[of st] by simp
  next
    case False
    show ?thesis
    proof (cases "fs_existsSync env p")
      case True
      have "events (snd (findSfPath_loop env (p # ps) st)) = events st @ [ExistsSync p]"
        using True False by (simp add: logEvent_def)
      moreover have "execsOf [ExistsSync p] = []" by (simp add: execsOf_simps)
      ultimately show ?thesis by blast
    next
      case no: False
      from Cons.IH[of "logEvent (ExistsSync p) st"] obtain evs where
        e: "events (snd (findSfPath_loop env ps (logEvent (ExistsSync p) st)))
              = events (logEvent (ExistsSync p) st) @ evs" and x: "execsOf evs = []"
        by blast
      have "events (snd (findSfPath_loop env (p # ps) st)) = events st @ (ExistsSync p # evs)"
        using no False e by (simp add: logEvent_def)
      moreover have "execsOf (ExistsSync p # evs) = []" using x by (simp add: execsOf_simps)
      ultimately show ?thesis by blast
    qed
  qed
qed

lemma findSfPath_events:
  "\<exists>evs. events (snd (findSfPath env st)) = events st @ evs \<and> execsOf evs = []"
proof (cases "\<exists>c cs. cachedSfPath st = Some (c # cs)")
  case True
  then have "snd (findSfPath env st) = st" by (auto simp: findSfPath_def)
  then show ?thesis by (simp add: execsOf_simps)
next
  case False
  obtain r st1 where l: "findSfPath_loop env (pathsToCheck env) st = (r, st1)"
    by (cases "findSfPath_loop env (pathsToCheck env) st")
  have "events (snd (findSfPath env st)) = events st1"
    using False l by (auto simp: findSfPath_def split: option.splits list.splits)
  then show ?thesis using findSfPath_loop_events[of env "pathsToCheck env" st] l by simp
qed

lemma validateProjectPath_events:
  "\<exists>evs. events (snd (validateProjectPath env p st)) = events st @ evs \<and> execsOf evs = []"
proof -
  have a: "execsOf [] = [] \<and> execsOf [ExistsSync x] = [] \<and> execsOf [ExistsSync x, StatSync y] = []
    \<and> execsOf [ExistsSync x, StatSync y, ExistsSync z] = []" for x y z
    by (simp add: execsOf_simps)
  show ?thesis
    unfolding validateProjectPath_def Let_def logEvent_def
    by (auto split: sum.splits simp: a)
qed

lemma executeSfCommand_unfold:
  assumes "findSfPath env st = (sfPath, st1)"
    and "child_exec env (replaceSf command (dquote @ sfPath @ dquote @ js '' '')) = (error, stdout, stderr)"
  shows "executeSfCommand env command st =
    (executeSfCommand_callback env error stdout stderr,
     logEvent (Exec (replaceSf command (dquote @ sfPath @ dquote @ js '' ''))) st1)"
  using assms by (simp add: executeSfCommand_def Let_def)

lemma spawned_after_probes:
  assumes "events st1 = events st @ evs" "execsOf evs = []"
  shows "spawned st (logEvent (Exec c) st1) = [c]"
proof -
  have "events (logEvent (Exec c) st1) = events st @ (evs @ [Exec c])"
    using assms(1) by (simp add: logEvent_def)
  from spawned_append[OF this] show ?thesis using assms(2) by (simp add: execsOf_simps)
qed

lemma spawned_probes_only:
  assumes "events st1 = events st @ evs" "execsOf evs = []"
  shows "spawned st st1 = []"
  using spawned_append[OF assms(1)] assms(2) by simp

lemma executeSfCommand_char:
  "\<exists>full error stdout stderr.
     child_exec env full = (error, stdout, stderr)
     \<and> full = replaceSf command (dquote @ fst (findSfPath env st) @ dquote @ js '' '')
     \<and> spawned st (snd (executeSfCommand env command st)) = [full]
     \<and> fst (executeSfCommand env command st) = executeSfCommand_callback env error stdout stderr"
proof -
  obtain sfPath st1 where f: "findSfPath env st = (sfPath, st1)" by (cases "findSfPath env st")
  define full where "full = replaceSf command (dquote @ sfPath @ dquote @ js '' '')"
  obtain error stdout stderr where c: "child_exec env full = (error, stdout, stderr)"
    by (cases "child_exec env full")
  obtain evs where e: "events st1 = events st @ evs" and x: "execsOf evs = []"
    using findSfPath_events[of env st] f by auto
  have "executeSfCommand env command st =
      (executeSfCommand_callback env error stdout stderr, logEvent (Exec full) st1)"
    using executeSfCommand_unfold[OF f c[unfolded full_def]] by (simp add: full_def)
  then show ?thesis using c spawned_after_probes[OF e x, of full] f by (auto simp: full_def)
qed

lemma executeSfCommandRaw_char:
  "\<exists>full error stdout stderr.
     child_exec env full = (error, stdout, stderr)
     \<and> full = replaceSf command (dquote @ fst (findSfPath env st) @ dquote @ js '' '')
     \<and> spawned st (snd (executeSfCommandRaw env command st)) = [full]
     \<and> fst (executeSfCommandRaw env command st)
         = executeSfCommandRaw_callback command error stdout stderr"
proof -
  obtain sfPath st1 where f: "findSfPath env st = (sfPath, st1)" by (cases "findSfPath env st")
  define full where "full = replaceSf command (dquote @ sfPath @ dquote @ js '' '')"
  obtain error stdout stderr where c: "child_exec env full = (error, stdout, stderr)"
    by (cases "child_exec env full")
  obtain evs where e: "events st1 = events st @ evs" and x: "execsOf evs = []"
    using findSfPath_events[of env st] f by auto
  have "executeSfCommandRaw env command st =
      (executeSfCommandRaw_callback command error stdout stderr, logEvent (Exec full) st1)"
    using f c by (simp add: executeSfCommandRaw_def Let_def full_def)
  then show ?thesis using c spawned_after_probes[OF e x, of full] f by (auto simp: full_def)
qed

lemma validate_then_find_events:
  assumes "validateProjectPath env p st = (v, st0)" "findSfPath env st0 = (sfPath, st1)"
  shows "\<exists>evs. events st1 = events st @ evs \<and> execsOf evs = []"
proof -
  obtain evs0 where a: "events st0 = events st @ evs0" "execsOf evs0 = []"
    using validateProjectPath_events[of env p st] assms(1) by auto
  obtain evs1 where b: "events st1 = events st0 @ evs1" "execsOf evs1 = []"
    using findSfPath_events[of env st0] assms(2) by auto
  have "events st1 = events st @ (evs0 @ evs1)" using a b by simp
  moreover have "execsOf (evs0 @ evs1) = []" using a b by (simp add: execsOf_simps)
  ultimately show ?thesis by blast
qed

lemma executeSfCommandInProject_invalid:
  assumes "fst (validateProjectPath env p st) = Inl e"
  shows "fst (executeSfCommandInProject env command p st) = Inl e"
    and "spawned st (snd (executeSfCommandInProject env command p st)) = []"
proof -
  obtain st0 where v: "validateProjectPath env p st = (Inl e, st0)"
    using assms by (cases "validateProjectPath env p st") auto
  then have r: "executeSfCommandInProject env command p st = (Inl e, st0)"
    by (simp add: executeSfCommandInProject_def)
  show "fst (executeSfCommandInProject env command p st) = Inl e" using r by simp
  obtain evs0 where "events st0 = events st @ evs0" "execsOf evs0 = []"
    using validateProjectPath_events[of env p st] v by auto
  from spawned_probes_only[OF this] show "spawned st (snd (executeSfCommandInProject env command p st)) = []"
    using r by simp
qed

lemma executeSfCommandInProject_valid:
  assumes "fst (validateProjectPath env p st) = Inr u"
  shows "\<exists>full error stdout stderr.
     child_exec env full = (error, stdout, stderr)
     \<and> full = cdCommand (os_platform env) (path_resolve env p)
               (replaceSf command
                 (dquote @ fst (findSfPath env (snd (validateProjectPath env p st))) @ dquote @ js '' ''))
     \<and> spawned st (snd (executeSfCommandInProject env command p st)) = [full]
     \<and> fst (executeSfCommandInProject env command p st)
         = executeSfCommandInProject_callback env error stdout stderr"
proof -
  obtain st0 where v: "validateProjectPath env p st = (Inr u, st0)"
    using assms by (cases "validateProjectPath env p st") auto
  obtain sfPath st1 where f: "findSfPath env st0 = (sfPath, st1)" by (cases "findSfPath env st0")
  define full where "full = cdCommand (os_platform env) (path_resolve env p)
     (replaceSf command (dquote @ sfPath @ dquote @ js '' ''))"
  obtain error stdout stderr where c: "child_exec env full = (error, stdout, stderr)"
    by (cases "child_exec env full")
  obtain evs where e: "events st1 = events st @ evs" and x: "execsOf evs = []"
    using validate_then_find_events[OF v f] by auto
  have "executeSfCommandInProject env command p st =
      (executeSfCommandInProject_callback env error stdout stderr, logEvent (Exec full) st1)"
    using v f c by (simp add: executeSfCommandInProject_def Let_def full_def)
  then show ?thesis using c spawned_after_probes[OF e x, of full] f v by (auto simp: full_def)
qed

lemma executeSfCommandInProjectRaw_invalid:
  assumes "fst (validateProjectPath env p st) = Inl e"
  shows "fst (executeSfCommandInProjectRaw env command p st) = Inl e"
    and "spawned st (snd (executeSfCommandInProjectRaw env command p st)) = []"
proof -
  obtain st0 where v: "validateProjectPath env p st = (Inl e, st0)"
    using assms by (cases "validateProjectPath env p st") auto
  then have r: "executeSfCommandInProjectRaw env command p st = (Inl e, st0)"
    by (simp add: executeSfCommandInProjectRaw_def)
  show "fst (executeSfCommandInProjectRaw env command p st) = Inl e" using r by simp
  obtain evs0 where "events st0 = events st @ evs0" "execsOf evs0 = []"
    using validateProjectPath_events[of env p st] v by auto
  from spawned_probes_only[OF this]
  show "spawned st (snd (executeSfCommandInProjectRaw env command p st)) = []"
    using r by simp
qed

lemma executeSfCommandInProjectRaw_valid:
  assumes "fst (validateProjectPath env p st) = Inr u"
  shows "\<exists>full error stdout stderr.
     child_exec env full = (error, stdout, stderr)
     \<and> full = cdCommand (os_platform env) (path_resolve env p)
               (replaceSf command
                 (dquote @ fst (findSfPath env (snd (validateProjectPath env p st))) @ dquote @ js '' ''))
     \<and> spawned st (snd (executeSfCommandInProjectRaw env command p st)) = [full]
     \<and> fst (executeSfCommandInProjectRaw env command p st)
         = executeSfCommandInProjectRaw_callback env command error stdout stderr"
proof -
  obtain st0 where v: "validateProjectPath env p st = (Inr u, st0)"
    using assms by (cases "validateProjectPath env p st") auto
  obtain sfPath st1 where f: "findSfPath env st0 = (sfPath, st1)" by (cases "findSfPath env st0")
  define full where "full = cdCommand (os_platform env) (path_resolve env p)
     (replaceSf command (dquote @ sfPath @ dquote @ js '' ''))"
  obtain error stdout stderr where c: "child_exec env full = (error, stdout, stderr)"
    by (cases "child_exec env full")
  obtain evs where e: "events st1 = events st @ evs" and x: "execsOf evs = []"
    using validate_then_find_events[OF v f] by auto
  have "executeSfCommandInProjectRaw env command p st =
      (executeSfCommandInProjectRaw_callback env command error stdout stderr,
       logEvent (Exec full) st1)"
    using v f c by (simp add: executeSfCommandInProjectRaw_def Let_def full_def)
  then show ?thesis using c spawned_after_probes[OF e x, of full] f v by (auto simp: full_def)
qed

text \<open>What each invoker returns is its callback applied to what the one spawned child gave.\<close>

lemma executeSfCommand_outcome:
  assumes "executeSfCommand env command st = (r, st')" "spawned st st' = [full]"
    "child_exec env full = (error, stdout, stderr)"
  shows "r = executeSfCommand_callback env error stdout stderr"
  using executeSfCommand_char[of env command st] assms by auto

lemma executeSfCommandRaw_outcome:
  assumes "executeSfCommandRaw env command st = (r, st')" "spawned st st' = [full]"
    "child_exec env full = (error, stdout, stderr)"
  shows "r = executeSfCommandRaw_callback command error stdout stderr"
  using executeSfCommandRaw_char[of env command st] assms by auto

lemma executeSfCommandInProject_outcome:
  assumes "executeSfCommandInProject env command p st = (r, st')" "spawned st st' = [full]"
    "child_exec env full = (error, stdout, stderr)"
  shows "r = executeSfCommandInProject_callback env error stdout stderr"
proof (cases "fst (validateProjectPath env p st)")
  case (Inl e)
  from executeSfCommandInProject_invalid(2)[OF this, of command] assms show ?thesis by simp
next
  case (Inr u)
  from executeSfCommandInProject_valid[OF this, of command] assms show ?thesis by auto
qed

lemma executeSfCommandInProjectRaw_outcome:
  assumes "executeSfCommandInProjectRaw env command p st = (r, st')" "spawned st st' = [full]"
    "child_exec env full = (error, stdout, stderr)"
  shows "r = executeSfCommandInProjectRaw_callback env command error stdout stderr"
proof (cases "fst (validateProjectPath env p st)")
  case (Inl e)
  from executeSfCommandInProjectRaw_invalid(2)[OF this, of command] assms show ?thesis by simp
next
  case (Inr u)
  from executeSfCommandInProjectRaw_valid[OF this, of command] assms show ?thesis by auto
qed

lemma exampleEnv_valid: "fst (validateProjectPath (exampleEnv\<lparr>child_exec := x\<rparr>) (js ''/proj'') startState) = Inr ()"
  by (simp add: validateProjectPath_def exampleEnv_def js_def trim_def isWhiteSpace_def logEvent_def Let_def)

text \<open>
  Claim C1.  In \<open>executeSfCommand\<close> and \<open>executeSfCommandInProject\<close>: when the child that
  was spawned wrote a non-empty primary output that parses as JSON, the outcome is the parsed
  payload, whatever error the child process reported and whatever it wrote to the error
  channel.
\<close>

theorem structured_stdout_wins:
  assumes "spawned st st' = [full]"
    and "child_exec env full = (error, stdout, stderr)"
    and "stdout \<noteq> []"
    and "JSON_parse env stdout = Some payload"
  shows "(executeSfCommand env command st = (r, st') \<longrightarrow> r = Inr payload)
       \<and> (executeSfCommandInProject env command projectPath st = (r, st') \<longrightarrow> r = Inr payload)"
proof (intro conjI impI)
  assume "executeSfCommand env command st = (r, st')"
  from executeSfCommand_outcome[OF this assms(1,2)] show "r = Inr payload"
    using assms(3,4) by (simp add: executeSfCommand_callback_def)
next
  assume "executeSfCommandInProject env command projectPath st = (r, st')"
  from executeSfCommandInProject_outcome[OF this assms(1,2)] show "r = Inr payload"
    using assms(3,4) by (simp add: executeSfCommandInProject_callback_def)
qed

theorem structured_stdout_wins_witness:
  "fst (executeSfCommand failingEnv (js ''sf org list --json'') startState) = Inr statusPayload
   \<and> fst (executeSfCommandInProject failingEnv (js ''sf org list --json'') (js ''/proj'') startState)
       = Inr statusPayload"
proof
  let ?c = "js ''sf org list --json''"
  obtain full where s: "spawned startState (snd (executeSfCommand failingEnv ?c startState)) = [full]"
    using executeSfCommand_char[of failingEnv ?c startState] by blast
  have c: "child_exec failingEnv full
             = (Some (Error (js ''Command failed: '' @ full @ newline @ js ''Error: no org'')),
                statusJson, js ''Error: no org'')"
    by (simp add: failingEnv_def execFailure_def)
  have n: "statusJson \<noteq> []" by (simp add: statusJson_def js_def)
  have p: "JSON_parse failingEnv statusJson = Some statusPayload" by code_simp
  show "fst (executeSfCommand failingEnv ?c startState) = Inr statusPayload"
    using structured_stdout_wins[OF s c n p, of ?c "fst (executeSfCommand failingEnv ?c startState)"]
    by simp
  have v: "fst (validateProjectPath failingEnv (js ''/proj'') startState) = Inr ()"
    unfolding failingEnv_def by (rule exampleEnv_valid)
  obtain full' where s': "spawned startState
      (snd (executeSfCommandInProject failingEnv ?c (js ''/proj'') startState)) = [full']"
    using executeSfCommandInProject_valid[OF v, of ?c] by blast
  have c': "child_exec failingEnv full'
             = (Some (Error (js ''Command failed: '' @ full' @ newline @ js ''Error: no org'')),
                statusJson, js ''Error: no org'')"
    by (simp add: failingEnv_def execFailure_def)
  show "fst (executeSfCommandInProject failingEnv ?c (js ''/proj'') startState) = Inr statusPayload"
    using structured_stdout_wins[OF s' c' n p, of ?c
        "fst (executeSfCommandInProject failingEnv ?c (js ''/proj'') startState)" "js ''/proj''"]
    by simp
qed

text \<open>
  Claim C10.  In \<open>executeSfCommand\<close> and \<open>executeSfCommandInProject\<close>: when the child
  reported no error, wrote no primary output that parses, and its error channel contains the
  substring \<open>Warning\<close> anywhere, the error channel is ignored and the outcome is the failure
  \<open>No output received from command\<close>.
\<close>

theorem warning_stderr_gives_no_output:
  assumes "spawned st st' = [full]"
    and "child_exec env full = (None, stdout, stderr)"
    and "stdout = [] \<or> JSON_parse env stdout = None"
    and "str_includes stderr (js ''Warning'')"
  shows "(executeSfCommand env command st = (r, st')
            \<longrightarrow> r = Inl (Error (js ''No output received from command'')))
       \<and> (executeSfCommandInProject env command projectPath st = (r, st')
            \<longrightarrow> r = Inl (Error (js ''No output received from command'')))"
proof (intro conjI impI)
  assume "executeSfCommand env command st = (r, st')"
  from executeSfCommand_outcome[OF this assms(1,2)]
  show "r = Inl (Error (js ''No output received from command''))"
    using assms(3,4) by (auto simp: executeSfCommand_callback_def)
next
  assume "executeSfCommandInProject env command projectPath st = (r, st')"
  from executeSfCommandInProject_outcome[OF this assms(1,2)]
  show "r = Inl (Error (js ''No output received from command''))"
    using assms(3,4) by (auto simp: executeSfCommandInProject_callback_def)
qed

theorem warning_stderr_gives_no_output_witness:
  "fst (executeSfCommand warningEnv (js ''sf org list --json'') startState)
     = Inl (Error (js ''No output received from command''))
   \<and> fst (executeSfCommandInProject warningEnv (js ''sf org list --json'') (js ''/proj'') startState)
       = Inl (Error (js ''No output received from command''))"
proof
  let ?c = "js ''sf org list --json''"
  let ?err = "js ''Warning: update available. Error: no org''"
  obtain full where s: "spawned startState (snd (executeSfCommand warningEnv ?c startState)) = [full]"
    using executeSfCommand_char[of warningEnv ?c startState] by blast
  have c: "child_exec warningEnv full = (None, [], ?err)"
    by (simp add: warningEnv_def)
  have n: "([]::ustring) = [] \<or> JSON_parse warningEnv [] = None" by simp
  have w: "str_includes ?err (js ''Warning'')" by code_simp
  show "fst (executeSfCommand warningEnv ?c startState)
          = Inl (Error (js ''No output received from command''))"
    using warning_stderr_gives_no_output[OF s c n w, of ?c
        "fst (executeSfCommand warningEnv ?c startState)"]
    by simp
  have v: "fst (validateProjectPath warningEnv (js ''/proj'') startState) = Inr ()"
    unfolding warningEnv_def by (rule exampleEnv_valid)
  obtain full' where s': "spawned startState
      (snd (executeSfCommandInProject warningEnv ?c (js ''/proj'') startState)) = [full']"
    using executeSfCommandInProject_valid[OF v, of ?c] by blast
  have c': "child_exec warningEnv full' = (None, [], ?err)"
    by (simp add: warningEnv_def)
  show "fst (executeSfCommandInProject warningEnv ?c (js ''/proj'') startState)
          = Inl (Error (js ''No output received from command''))"
    using warning_stderr_gives_no_output[OF s' c' n w, of ?c
        "fst (executeSfCommandInProject warningEnv ?c (js ''/proj'') startState)" "js ''/proj''"]
    by simp
qed

text \<open>
  Claim C3, as amended.  In \<open>executeSfCommandRaw\<close> and \<open>executeSfCommandInProjectRaw\<close>: when
  the command contains \<open>scanner\<close> or \<open>code-analyzer\<close>, the child failed with a message that
  contains neither \<open>command not found\<close> nor \<open>is not recognized\<close>, and the primary output is
  not empty, the outcome is a success carrying the primary output unchanged.
\<close>

theorem analysis_output_is_success:
  assumes "spawned st st' = [full]"
    and "child_exec env full = (Some err, stdout, stderr)"
    and "stdout \<noteq> []"
    and "str_includes command (js ''scanner'') \<or> str_includes command (js ''code-analyzer'')"
    and "\<not> isNotFoundMessage (message err)"
  shows "(executeSfCommandRaw env command st = (r, st') \<longrightarrow> r = Inr stdout)
       \<and> (executeSfCommandInProjectRaw env command projectPath st = (r, st') \<longrightarrow> r = Inr stdout)"
proof (intro conjI impI)
  assume "executeSfCommandRaw env command st = (r, st')"
  from executeSfCommandRaw_outcome[OF this assms(1,2)] show "r = Inr stdout"
    using assms(3,4,5) by (auto simp: executeSfCommandRaw_callback_def)
next
  assume "executeSfCommandInProjectRaw env command projectPath st = (r, st')"
  from executeSfCommandInProjectRaw_outcome[OF this assms(1,2)] show "r = Inr stdout"
    using assms(3,4,5) by (auto simp: executeSfCommandInProjectRaw_callback_def)
qed

theorem analysis_output_is_success_witness:
  "fst (executeSfCommandRaw scannerEnv (js ''sf scanner run'') startState) = Inr (js ''3 violations'')
   \<and> fst (executeSfCommandInProjectRaw scannerEnv (js ''sf scanner run'') (js ''/proj'') startState)
       = Inr (js ''3 violations'')"
proof
  let ?c = "js ''sf scanner run''"
  have s: "spawned startState (snd (executeSfCommandRaw scannerEnv ?c startState)) = [sfScannerRun]"
    by code_simp
  have c: "child_exec scannerEnv sfScannerRun
             = (Some (Error (js ''Command failed: '' @ sfScannerRun @ newline)), js ''3 violations'', [])"
    by (simp add: scannerEnv_def execFailure_def)
  have n: "js ''3 violations'' \<noteq> []" by (simp add: js_def)
  have i: "str_includes ?c (js ''scanner'') \<or> str_includes ?c (js ''code-analyzer'')"
    by code_simp
  have f: "\<not> isNotFoundMessage (message (Error (js ''Command failed: '' @ sfScannerRun @ newline)))"
    by code_simp
  show "fst (executeSfCommandRaw scannerEnv ?c startState) = Inr (js ''3 violations'')"
    using analysis_output_is_success[OF s c n i f, of
        "fst (executeSfCommandRaw scannerEnv ?c startState)"]
    by simp
  have s': "spawned startState
      (snd (executeSfCommandInProjectRaw scannerEnv ?c (js ''/proj'') startState))
        = [inProj sfScannerRun]"
    by code_simp
  have c': "child_exec scannerEnv (inProj sfScannerRun)
             = (Some (Error (js ''Command failed: '' @ inProj sfScannerRun @ newline)),
                js ''3 violations'', [])"
    by (simp add: scannerEnv_def execFailure_def)
  have f': "\<not> isNotFoundMessage
                (message (Error (js ''Command failed: '' @ inProj sfScannerRun @ newline)))"
    by code_simp
  show "fst (executeSfCommandInProjectRaw scannerEnv ?c (js ''/proj'') startState)
          = Inr (js ''3 violations'')"
    using analysis_output_is_success[OF s' c' n i f', of
        "fst (executeSfCommandInProjectRaw scannerEnv ?c (js ''/proj'') startState)" "js ''/proj''"]
    by simp
qed

text \<open>
  Claim C3 as it is stated fails where the failure message of the child contains
  \<open>command not found\<close>: the check for a missing executable comes first.
\<close>

theorem analysis_output_counterexample:
  "str_includes (js ''sf scanner run'') (js ''scanner'')
   \<and> spawned startState (snd (executeSfCommandRaw scannerNotFoundEnv (js ''sf scanner run'') startState))
       = [sfScannerRun]
   \<and> child_exec scannerNotFoundEnv sfScannerRun
       = (Some (Error (js ''Command failed: '' @ sfScannerRun @ newline
                       @ js ''/bin/sh: pmd: command not found'')),
          js ''3 violations'', js ''/bin/sh: pmd: command not found'')
   \<and> js ''3 violations'' \<noteq> []
   \<and> fst (executeSfCommandRaw scannerNotFoundEnv (js ''sf scanner run'') startState)
       = Inl sfNotFound"
proof (intro conjI)
  show "str_includes (js ''sf scanner run'') (js ''scanner'')" by code_simp
  show "spawned startState
          (snd (executeSfCommandRaw scannerNotFoundEnv (js ''sf scanner run'') startState))
       = [sfScannerRun]" by code_simp
  show "child_exec scannerNotFoundEnv sfScannerRun
       = (Some (Error (js ''Command failed: '' @ sfScannerRun @ newline
                       @ js ''/bin/sh: pmd: command not found'')),
          js ''3 violations'', js ''/bin/sh: pmd: command not found'')"
    by (simp add: scannerNotFoundEnv_def execFailure_def)
  show "js ''3 violations'' \<noteq> []" by (simp add: js_def)
  show "fst (executeSfCommandRaw scannerNotFoundEnv (js ''sf scanner run'') startState)
       = Inl sfNotFound" by code_simp
qed

lemma arrayJoin_strings:
  "\<exists>j. arrayJoin f sep (map JStr xs) = Inr j \<and> (\<forall>x \<in> set xs. sublist x j)"
proof (induction xs)
  case Nil
  show ?case by simp
next
  case (Cons x xs)
  show ?case
  proof (cases xs)
    case Nil
    then show ?thesis by simp
  next
    case (Cons y ys)
    from Cons.IH obtain r where r: "arrayJoin f sep (map JStr xs) = Inr r"
      and s: "\<forall>z \<in> set xs. sublist z r" by blast
    have "arrayJoin f sep (map JStr (x # xs)) = Inr (x @ sep @ r)"
      using r Cons by simp
    moreover have "\<forall>z \<in> set (x # xs). sublist z (x @ sep @ r)"
      using s by (auto simp: sublist_append)
    ultimately show ?thesis by blast
  qed
qed

lemma detailedMessage_strings:
  assumes m: "map_of kvs (js ''message'') = map_option JStr msg"
    and a: "map_of kvs (js ''actions'') = map_option (\<lambda>xs. JArr (map JStr xs)) actions"
    and s: "map_of kvs (js ''stack'') = map_option JStr stack"
  shows "\<exists>detail. detailedMessage env (JObj kvs) = Inr detail
            \<and> prefix (js ''Error: '') detail
            \<and> (\<forall>x. msg = Some x \<longrightarrow> str_includes detail x)
            \<and> (\<forall>xs x. actions = Some xs \<and> x \<in> set xs \<longrightarrow> str_includes detail x)
            \<and> (\<forall>x. stack = Some x \<longrightarrow> str_includes detail x)"
proof -
  define msgText where "msgText = (case msg of None \<Rightarrow> js ''undefined'' | Some x \<Rightarrow> x)"
  obtain j where j: "\<forall>xs. actions = Some xs \<longrightarrow>
      arrayJoin (numToString env) newline (map JStr xs) = Inr j \<and> (\<forall>x \<in> set xs. sublist x j)"
  proof (cases actions)
    case None
    then show ?thesis using that by simp
  next
    case (Some xs)
    then show ?thesis using that arrayJoin_strings[of "numToString env" newline xs] by auto
  qed
  define actionsText where
    "actionsText = (if actions = None then [] else js ''Actions: '' @ j @ newline)"
  define stackPart where
    "stackPart = (case stack of None \<Rightarrow> [] | Some x \<Rightarrow> if x = [] then [] else js ''Stack: '' @ x)"
  have d: "detailedMessage env (JObj kvs)
             = Inr (js ''Error: '' @ msgText @ newline @ actionsText @ stackPart)"
    unfolding detailedMessage_def msgText_def actionsText_def stackPart_def
    using j by (cases msg; cases actions; cases stack; simp add: m a s)
  have ai: "\<forall>xs x. actions = Some xs \<and> x \<in> set xs \<longrightarrow> sublist x actionsText"
  proof (intro allI impI)
    fix xs x assume h: "actions = Some xs \<and> x \<in> set xs"
    then have "sublist x j" using j by blast
    then have "sublist x (js ''Actions: '' @ j @ newline)" by (simp add: sublist_append)
    then show "sublist x actionsText" using h by (simp add: actionsText_def)
  qed
  have si: "\<forall>x. stack = Some x \<longrightarrow> sublist x stackPart"
    by (auto simp: stackPart_def sublist_append)
  have "\<forall>x. msg = Some x \<longrightarrow> sublist x (js ''Error: '' @ msgText @ newline @ actionsText @ stackPart)"
    by (auto simp: msgText_def)
  moreover have "\<forall>xs x. actions = Some xs \<and> x \<in> set xs
      \<longrightarrow> sublist x (js ''Error: '' @ msgText @ newline @ actionsText @ stackPart)"
  proof (intro allI impI)
    fix xs x assume "actions = Some xs \<and> x \<in> set xs"
    then have "sublist x actionsText" using ai by blast
    then have "sublist x (actionsText @ stackPart)" by (simp add: sublist_append)
    then have "sublist x ((js ''Error: '' @ msgText @ newline) @ (actionsText @ stackPart))"
      by (simp only: sublist_append) blast
    then show "sublist x (js ''Error: '' @ msgText @ newline @ actionsText @ stackPart)" by simp
  qed
  moreover have "\<forall>x. stack = Some x
      \<longrightarrow> sublist x (js ''Error: '' @ msgText @ newline @ actionsText @ stackPart)"
  proof (intro allI impI)
    fix x assume "stack = Some x"
    then have "sublist x stackPart" using si by blast
    then have "sublist x ((js ''Error: '' @ msgText @ newline @ actionsText) @ stackPart)"
      by (simp only: sublist_append) blast
    then show "sublist x (js ''Error: '' @ msgText @ newline @ actionsText @ stackPart)" by simp
  qed
  ultimately show ?thesis using d by (simp add: str_includes_def)
qed

text \<open>
  Claim C2, as amended.  When the child failed with a message that contains neither
  \<open>command not found\<close> nor \<open>is not recognized\<close>, wrote no primary output, and its error
  channel parses as a JSON object whose \<open>message\<close> and \<open>stack\<close> are strings or absent and
  whose \<open>actions\<close> is an array of strings or absent: \<open>executeSfCommand\<close> fails with an error
  whose message starts with \<open>Error: \<close> and includes the message, each action and the stack
  that are present; the two raw invokers fail with the failure of the child itself.
\<close>

theorem executeSfCommand_structured_stderr:
  assumes "spawned st st' = [full]"
    and "child_exec env full = (Some err, [], stderr)"
    and "\<not> isNotFoundMessage (message err)"
    and "JSON_parse env stderr = Some (JObj kvs)"
    and "map_of kvs (js ''message'') = map_option JStr msg"
    and "map_of kvs (js ''actions'') = map_option (\<lambda>xs. JArr (map JStr xs)) actions"
    and "map_of kvs (js ''stack'') = map_option JStr stack"
  shows "(executeSfCommand env command st = (r, st') \<longrightarrow>
           (\<exists>detail. r = Inl (Error detail)
              \<and> prefix (js ''Error: '') detail
              \<and> (\<forall>x. msg = Some x \<longrightarrow> str_includes detail x)
              \<and> (\<forall>xs x. actions = Some xs \<and> x \<in> set xs \<longrightarrow> str_includes detail x)
              \<and> (\<forall>x. stack = Some x \<longrightarrow> str_includes detail x)))
       \<and> (executeSfCommandRaw env command st = (raw, st') \<longrightarrow> raw = Inl err)
       \<and> (executeSfCommandInProjectRaw env command projectPath st = (raw, st') \<longrightarrow> raw = Inl err)"
proof (intro conjI impI)
  assume e: "executeSfCommand env command st = (r, st')"
  from detailedMessage_strings[OF assms(5,6,7), of env] obtain detail where
    t: "detailedMessage env (JObj kvs) = Inr detail" and
    p: "prefix (js ''Error: '') detail
            \<and> (\<forall>x. msg = Some x \<longrightarrow> str_includes detail x)
            \<and> (\<forall>xs x. actions = Some xs \<and> x \<in> set xs \<longrightarrow> str_includes detail x)
            \<and> (\<forall>x. stack = Some x \<longrightarrow> str_includes detail x)" by blast
  have "r = executeSfCommand_callback env (Some err) [] stderr"
    by (rule executeSfCommand_outcome[OF e assms(1,2)])
  then have "r = Inl (Error detail)"
    using assms(3,4) t by (simp add: executeSfCommand_callback_def)
  then show "\<exists>detail. r = Inl (Error detail)
              \<and> prefix (js ''Error: '') detail
              \<and> (\<forall>x. msg = Some x \<longrightarrow> str_includes detail x)
              \<and> (\<forall>xs x. actions = Some xs \<and> x \<in> set xs \<longrightarrow> str_includes detail x)
              \<and> (\<forall>x. stack = Some x \<longrightarrow> str_includes detail x)" using p by blast
next
  assume "executeSfCommandRaw env command st = (raw, st')"
  from executeSfCommandRaw_outcome[OF this assms(1,2)] show "raw = Inl err"
    using assms(3) by (simp add: executeSfCommandRaw_callback_def)
next
  assume "executeSfCommandInProjectRaw env command projectPath st = (raw, st')"
  from executeSfCommandInProjectRaw_outcome[OF this assms(1,2)] show "raw = Inl err"
    using assms(3) by (simp add: executeSfCommandInProjectRaw_callback_def)
qed

theorem executeSfCommand_structured_stderr_witness:
  "(\<exists>detail. fst (executeSfCommand stderrJsonEnv (js ''sf org list'') startState) = Inl (Error detail)
      \<and> prefix (js ''Error: '') detail
      \<and> str_includes detail (js ''No org found'')
      \<and> str_includes detail (js ''Run sf org login'')
      \<and> str_includes detail (js ''Retry'')
      \<and> str_includes detail stackTrace)
   \<and> fst (executeSfCommandRaw stderrJsonEnv (js ''sf org list'') startState)
       = Inl (Error (js ''Command failed: '' @ sfOrgList @ newline @ errorJson))"
proof
  let ?c = "js ''sf org list''"
  let ?kvs = "[(js ''message'', JStr (js ''No org found'')),
           (js ''actions'', JArr [JStr (js ''Run sf org login''), JStr (js ''Retry'')]),
           (js ''stack'', JStr stackTrace)] :: (ustring \<times> int json) list"
  let ?err = "Error (js ''Command failed: '' @ sfOrgList @ newline @ errorJson)"
  have f: "\<not> isNotFoundMessage (message ?err)" by code_simp
  have p: "JSON_parse stderrJsonEnv errorJson = Some (JObj ?kvs)" by code_simp
  have m: "map_of ?kvs (js ''message'') = map_option JStr (Some (js ''No org found''))"
    by (simp add: js_def)
  have a: "map_of ?kvs (js ''actions'')
             = map_option (\<lambda>xs. JArr (map JStr xs)) (Some [js ''Run sf org login'', js ''Retry''])"
    by (simp add: js_def)
  have k: "map_of ?kvs (js ''stack'') = map_option JStr (Some stackTrace)"
    by (simp add: js_def)
  have s: "spawned startState (snd (executeSfCommand stderrJsonEnv ?c startState)) = [sfOrgList]"
    by code_simp
  have c: "child_exec stderrJsonEnv sfOrgList = (Some ?err, [], errorJson)"
    by (simp add: stderrJsonEnv_def execFailure_def)
  from executeSfCommand_structured_stderr[OF s c f p m a k, THEN conjunct1, of ?c
      "fst (executeSfCommand stderrJsonEnv ?c startState)"]
  show "\<exists>detail. fst (executeSfCommand stderrJsonEnv ?c startState) = Inl (Error detail)
      \<and> prefix (js ''Error: '') detail
      \<and> str_includes detail (js ''No org found'')
      \<and> str_includes detail (js ''Run sf org login'')
      \<and> str_includes detail (js ''Retry'')
      \<and> str_includes detail stackTrace" by fastforce
  have s': "spawned startState (snd (executeSfCommandRaw stderrJsonEnv ?c startState)) = [sfOrgList]"
    by code_simp
  from executeSfCommand_structured_stderr[OF s' c f p m a k, THEN conjunct2, THEN conjunct1, of ?c
      "fst (executeSfCommandRaw stderrJsonEnv ?c startState)"]
  show "fst (executeSfCommandRaw stderrJsonEnv ?c startState) = Inl ?err" by simp
qed

lemma stderrJsonEnv_executeSfCommand:
  "fst (executeSfCommand stderrJsonEnv (js ''sf org list'') startState)
     = Inl (Error (js ''Error: No org found'' @ newline
                   @ js ''Actions: Run sf org login'' @ newline @ js ''Retry'' @ newline
                   @ js ''Stack: '' @ stackTrace))"
  by code_simp

lemma stderrJsonEnv_executeSfCommandInProject:
  "fst (executeSfCommandInProject stderrJsonEnv (js ''sf org list'') (js ''/proj'') startState)
     = Inl (Error (js ''Command failed: '' @ inProj sfOrgList @ newline @ errorJson))"
  by code_simp

text \<open>
  Claim C2 as it is stated fails for the raw variants, which reject with the failure of the
  child process and never parse the error channel: the message of that failure holds the
  text of the error channel as it was written, where the stack trace is escaped.
\<close>

theorem structured_stderr_counterexample:
  "spawned startState (snd (executeSfCommandRaw stderrJsonEnv (js ''sf org list'') startState))
       = [sfOrgList]
   \<and> child_exec stderrJsonEnv sfOrgList
       = (Some (Error (js ''Command failed: '' @ sfOrgList @ newline @ errorJson)), [], errorJson)
   \<and> JSON_parse stderrJsonEnv errorJson = Some errorPayload
   \<and> getProp errorPayload (js ''stack'') = Inr (Some (JStr stackTrace))
   \<and> fst (executeSfCommandRaw stderrJsonEnv (js ''sf org list'') startState)
       = Inl (Error (js ''Command failed: '' @ sfOrgList @ newline @ errorJson))
   \<and> \<not> str_includes (js ''Command failed: '' @ sfOrgList @ newline @ errorJson) stackTrace"
proof (intro conjI)
  show "spawned startState (snd (executeSfCommandRaw stderrJsonEnv (js ''sf org list'') startState))
       = [sfOrgList]" by code_simp
  show "child_exec stderrJsonEnv sfOrgList
       = (Some (Error (js ''Command failed: '' @ sfOrgList @ newline @ errorJson)), [], errorJson)"
    by (simp add: stderrJsonEnv_def execFailure_def)
  show "JSON_parse stderrJsonEnv errorJson = Some errorPayload" by code_simp
  show "getProp errorPayload (js ''stack'') = Inr (Some (JStr stackTrace))" by code_simp
  show "fst (executeSfCommandRaw stderrJsonEnv (js ''sf org list'') startState)
       = Inl (Error (js ''Command failed: '' @ sfOrgList @ newline @ errorJson))" by code_simp
  show "\<not> str_includes (js ''Command failed: '' @ sfOrgList @ newline @ errorJson) stackTrace"
    by code_simp
qed

lemma getSubstitution_plain:
  "0x24 \<notin> set r \<Longrightarrow> getSubstitution m p f r = r"
  by (induction m p f r rule: getSubstitution.induct) auto

lemma replaceSf_match:
  assumes "startsWithSf command" "0x24 \<notin> set r"
  shows "replaceSf command r = r @ dropWhile isWhiteSpace (drop 2 command)"
  using assms
  by (auto simp: startsWithSf_def replaceSf_def getSubstitution_plain Let_def split: list.splits)

lemma replaceSf_no_match: "\<not> startsWithSf command \<Longrightarrow> replaceSf command r = command"
  by (auto simp: startsWithSf_def replaceSf_def split: list.splits)

text \<open>
  Claim C9.  A command that does not begin with \<open>sf\<close> followed by whitespace is executed
  as it is by \<open>executeSfCommand\<close> and \<open>executeSfCommandRaw\<close>, and with only the directory
  change in front of it by the two project-scoped invokers (once the project path is
  valid): the resolved path of the executable appears nowhere.
\<close>

theorem no_substitution_without_sf_prefix:
  assumes "\<not> startsWithSf command"
  shows "spawned st (snd (executeSfCommand env command st)) = [command]
       \<and> spawned st (snd (executeSfCommandRaw env command st)) = [command]
       \<and> (fst (validateProjectPath env projectPath st) = Inr ()
            \<longrightarrow> spawned st (snd (executeSfCommandInProject env command projectPath st))
                = [(if os_platform env = Win32 then js ''cd /d '' else js ''cd '')
                   @ dquote @ path_resolve env projectPath @ dquote @ js '' && '' @ command]
              \<and> spawned st (snd (executeSfCommandInProjectRaw env command projectPath st))
                = [(if os_platform env = Win32 then js ''cd /d '' else js ''cd '')
                   @ dquote @ path_resolve env projectPath @ dquote @ js '' && '' @ command])"
proof (intro conjI impI)
  show "spawned st (snd (executeSfCommand env command st)) = [command]"
    using executeSfCommand_char[of env command st] replaceSf_no_match[OF assms] by auto
  show "spawned st (snd (executeSfCommandRaw env command st)) = [command]"
    using executeSfCommandRaw_char[of env command st] replaceSf_no_match[OF assms] by auto
next
  assume v: "fst (validateProjectPath env projectPath st) = Inr ()"
  show "spawned st (snd (executeSfCommandInProject env command projectPath st))
                = [(if os_platform env = Win32 then js ''cd /d '' else js ''cd '')
                   @ dquote @ path_resolve env projectPath @ dquote @ js '' && '' @ command]"
    using executeSfCommandInProject_valid[OF v, of command] replaceSf_no_match[OF assms]
    by (auto simp: cdCommand_def)
next
  assume v: "fst (validateProjectPath env projectPath st) = Inr ()"
  show "spawned st (snd (executeSfCommandInProjectRaw env command projectPath st))
                = [(if os_platform env = Win32 then js ''cd /d '' else js ''cd '')
                   @ dquote @ path_resolve env projectPath @ dquote @ js '' && '' @ command]"
    using executeSfCommandInProjectRaw_valid[OF v, of command] replaceSf_no_match[OF assms]
    by (auto simp: cdCommand_def)
qed

theorem no_substitution_without_sf_prefix_witness:
  "spawned startState (snd (executeSfCommand exampleEnv (js ''sfdx force:org:list'') startState))
     = [js ''sfdx force:org:list'']
   \<and> spawned startState (snd (executeSfCommandRaw exampleEnv (js ''sfdx force:org:list'') startState))
     = [js ''sfdx force:org:list'']
   \<and> spawned startState
        (snd (executeSfCommandInProject exampleEnv (js ''sfdx force:org:list'') (js ''/proj'') startState))
     = [js ''cd '' @ dquote @ js ''/proj'' @ dquote @ js '' && sfdx force:org:list'']
   \<and> spawned startState
        (snd (executeSfCommandInProjectRaw exampleEnv (js ''sfdx force:org:list'') (js ''/proj'') startState))
     = [js ''cd '' @ dquote @ js ''/proj'' @ dquote @ js '' && sfdx force:org:list'']"
proof -
  have n: "\<not> startsWithSf (js ''sfdx force:org:list'')" by code_simp
  have v: "fst (validateProjectPath exampleEnv (js ''/proj'') startState) = Inr ()" by code_simp
  have p: "os_platform exampleEnv \<noteq> Win32" "path_resolve exampleEnv (js ''/proj'') = js ''/proj''"
    by (simp_all add: exampleEnv_def)
  have a: "js '' && '' @ js ''sfdx force:org:list'' = js '' && sfdx force:org:list''"
    by (simp add: js_def)
  from no_substitution_without_sf_prefix[OF n, of startState exampleEnv "js ''/proj''"] v p a
  show ?thesis by simp
qed

section \<open>The precondition validator: properties\<close>

text \<open>The checks of \<open>validateProjectPath\<close>, in the order of the source.\<close>

lemma validateProjectPath_empty:
  assumes "projectPath = [] \<or> trim projectPath = []"
  shows "validateProjectPath env projectPath st
           = (Inl (Error (js ''Project path cannot be empty'')), st)"
  using assms by (simp add: validateProjectPath_def)

lemma validateProjectPath_missing:
  assumes "trim projectPath \<noteq> []"
    and "\<not> fs_existsSync env (path_resolve env projectPath)"
  shows "validateProjectPath env projectPath st
           = (Inl (Error (js ''Project path does not exist: '' @ path_resolve env projectPath)),
              logEvent (ExistsSync (path_resolve env projectPath)) st)"
  using assms by (auto simp: validateProjectPath_def Let_def trim_def)

lemma validateProjectPath_not_directory:
  assumes "trim projectPath \<noteq> []"
    and "fs_existsSync env (path_resolve env projectPath)"
    and "fs_statSync env (path_resolve env projectPath) = Inr False"
  shows "validateProjectPath env projectPath st
           = (Inl (Error (js ''Cannot access project path: ''
                          @ js ''Project path is not a directory: ''
                          @ path_resolve env projectPath)),
              logEvent (StatSync (path_resolve env projectPath))
                (logEvent (ExistsSync (path_resolve env projectPath)) st))"
  using assms by (auto simp: validateProjectPath_def Let_def trim_def)

lemma validateProjectPath_no_marker:
  assumes "trim projectPath \<noteq> []"
    and "fs_existsSync env (path_resolve env projectPath)"
    and "fs_statSync env (path_resolve env projectPath) = Inr True"
    and "\<not> fs_existsSync env (path_join env [path_resolve env projectPath, js ''.sf''])"
  shows "fst (validateProjectPath env projectPath st)
           = Inl (Error (js ''Project path does not contain .sf directory. ''
                         @ js ''Please ensure this is a valid Salesforce DX project: ''
                         @ path_resolve env projectPath))"
  using assms by (auto simp: validateProjectPath_def Let_def trim_def)

lemma validateProjectPath_passes:
  "fst (validateProjectPath env projectPath st) = Inr () \<longleftrightarrow>
     trim projectPath \<noteq> []
     \<and> fs_existsSync env (path_resolve env projectPath)
     \<and> fs_statSync env (path_resolve env projectPath) = Inr True
     \<and> fs_existsSync env (path_join env [path_resolve env projectPath, js ''.sf''])"
  by (auto simp: validateProjectPath_def Let_def trim_def split: sum.splits)

lemma validateProjectPath_read_only:
  "cachedSfPath (snd (validateProjectPath env projectPath st)) = cachedSfPath st
   \<and> spawned st (snd (validateProjectPath env projectPath st)) = []"
proof
  show "cachedSfPath (snd (validateProjectPath env projectPath st)) = cachedSfPath st"
    by (auto simp: validateProjectPath_def Let_def logEvent_def split: sum.splits)
  obtain evs where "events (snd (validateProjectPath env projectPath st)) = events st @ evs"
    "execsOf evs = []" using validateProjectPath_events by blast
  then show "spawned st (snd (validateProjectPath env projectPath st)) = []"
    by (rule spawned_probes_only)
qed

text \<open>
  Claim C4.  The fourth check of \<open>validateProjectPath\<close> asks only whether an entry named
  \<open>.sf\<close> exists: a directory whose \<open>.sf\<close> is a regular file has no marker subdirectory,
  and still passes.
\<close>

theorem validateProjectPath_accepts_marker_file:
  "fs_statSync exampleEnv (js ''/work'') = Inr True
   \<and> fs_existsSync exampleEnv (path_join exampleEnv [js ''/work'', js ''.sf''])
   \<and> fs_statSync exampleEnv (path_join exampleEnv [js ''/work'', js ''.sf'']) = Inr False
   \<and> fst (validateProjectPath exampleEnv (js ''/work'') startState) = Inr ()"
proof (intro conjI)
  show "fs_statSync exampleEnv (js ''/work'') = Inr True" by code_simp
  show "fs_existsSync exampleEnv (path_join exampleEnv [js ''/work'', js ''.sf''])" by code_simp
  show "fs_statSync exampleEnv (path_join exampleEnv [js ''/work'', js ''.sf'']) = Inr False"
    by code_simp
  show "fst (validateProjectPath exampleEnv (js ''/work'') startState) = Inr ()" by code_simp
qed

section \<open>The command builder: properties\<close>

lemma getDefaultUsername_unavailable:
  assumes "\<not> fs_existsSync env (path_join env [path_resolve env p, js ''.sfdx'', js ''sfdx-config.json''])
     \<or> (\<exists>e. fs_readFileSync env (path_join env [path_resolve env p, js ''.sfdx'', js ''sfdx-config.json'']) = Inl e)
     \<or> (\<exists>content. fs_readFileSync env (path_join env [path_resolve env p, js ''.sfdx'', js ''sfdx-config.json'']) = Inr content
            \<and> JSON_parse env content = None)"
  shows "fst (getDefaultUsername env p st) = None"
  using assms by (auto simp: getDefaultUsername_def Let_def split: sum.splits option.splits)

lemma sublist_across_separator:
  assumes "c \<notin> set t"
  shows "sublist t (a @ c # b) \<longleftrightarrow> sublist t a \<or> sublist t b"
proof
  assume "sublist t (a @ c # b)"
  then consider "sublist t a" | "sublist t (c # b)"
    | xs1 xs2 where "t = xs1 @ xs2" "suffix xs1 a" "prefix xs2 (c # b)"
    unfolding sublist_append by blast
  then show "sublist t a \<or> sublist t b"
  proof cases
    case 1 then show ?thesis by simp
  next
    case 2
    then show ?thesis using assms
      by (cases t) (auto simp: sublist_Cons_right prefix_Cons)
  next
    case 3
    then show ?thesis using assms
      by (cases xs2) (auto simp: prefix_Cons)
  qed
next
  assume "sublist t a \<or> sublist t b"
  then show "sublist t (a @ c # b)"
    by (auto simp: sublist_append sublist_Cons_right)
qed




lemma target_flag_no_space: "(0x20 :: 16 word) \<notin> set (js ''--target-org'')"
  by (simp add: js_def)

lemma json_flag_appended: "js '' --json'' = 0x20 # js ''--json''"
  by (simp add: js_def)


lemma target_flag_not_in_json_flag: "\<not> sublist (js ''--target-org'') (js ''--json'')"
  by code_simp


lemma buildSfCommand_no_org:
  assumes "fst (case sourcePath of
              Some (c # cs) \<Rightarrow>
                if (case targetOrg of None \<Rightarrow> True | Some org \<Rightarrow> org = [] \<or> trim org = [])
                then getDefaultUsername env (c # cs) st
                else (map_option JStr targetOrg, st)
            | _ \<Rightarrow> (map_option JStr targetOrg, st)) = None
         \<or> (\<exists>org. fst (case sourcePath of
              Some (c # cs) \<Rightarrow>
                if (case targetOrg of None \<Rightarrow> True | Some org \<Rightarrow> org = [] \<or> trim org = [])
                then getDefaultUsername env (c # cs) st
                else (map_option JStr targetOrg, st)
            | _ \<Rightarrow> (map_option JStr targetOrg, st)) = Some (JStr org) \<and> trim org = [])"
  shows "fst (buildSfCommand env baseCommand targetOrg sourcePath st) =
    Inr (if str_includes baseCommand (js ''--json'') then baseCommand
         else baseCommand @ js '' --json'')"
  using assms unfolding buildSfCommand_def
  by (auto split: prod.splits)

text \<open>
  Claim C7.  With no target org given (undefined, empty or blank) and a project whose
  configuration file is absent, unreadable or unparseable, \<open>buildSfCommand\<close> returns the
  base command with no \<open>--target-org\<close> added, and with \<open>--json\<close> appended exactly when the
  base command does not contain it.
\<close>

theorem buildSfCommand_without_default:
  assumes "targetOrg = None \<or> (\<exists>org. targetOrg = Some org \<and> trim org = [])"
    and "\<not> fs_existsSync env
             (path_join env [path_resolve env projectPath, js ''.sfdx'', js ''sfdx-config.json''])
         \<or> (\<exists>e. fs_readFileSync env
                   (path_join env [path_resolve env projectPath, js ''.sfdx'', js ''sfdx-config.json''])
                 = Inl e)
         \<or> (\<exists>content. fs_readFileSync env
                   (path_join env [path_resolve env projectPath, js ''.sfdx'', js ''sfdx-config.json''])
                 = Inr content \<and> JSON_parse env content = None)"
  shows "fst (buildSfCommand env baseCommand targetOrg (Some projectPath) st)
           = Inr (if str_includes baseCommand (js ''--json'') then baseCommand
                  else baseCommand @ js '' --json'')
       \<and> (\<not> str_includes baseCommand (js ''--target-org'')
            \<longrightarrow> \<not> str_includes (if str_includes baseCommand (js ''--json'') then baseCommand
                                  else baseCommand @ js '' --json'') (js ''--target-org''))"
proof
  have g: "fst (getDefaultUsername env projectPath st) = None"
    by (rule getDefaultUsername_unavailable[OF assms(2)])
  show "fst (buildSfCommand env baseCommand targetOrg (Some projectPath) st)
           = Inr (if str_includes baseCommand (js ''--json'') then baseCommand
                  else baseCommand @ js '' --json'')"
  proof (rule buildSfCommand_no_org)
    show "fst (case Some projectPath of
              Some (c # cs) \<Rightarrow>
                if (case targetOrg of None \<Rightarrow> True | Some org \<Rightarrow> org = [] \<or> trim org = [])
                then getDefaultUsername env (c # cs) st
                else (map_option JStr targetOrg, st)
            | _ \<Rightarrow> (map_option JStr targetOrg, st)) = None
         \<or> (\<exists>org. fst (case Some projectPath of
              Some (c # cs) \<Rightarrow>
                if (case targetOrg of None \<Rightarrow> True | Some org \<Rightarrow> org = [] \<or> trim org = [])
                then getDefaultUsername env (c # cs) st
                else (map_option JStr targetOrg, st)
            | _ \<Rightarrow> (map_option JStr targetOrg, st)) = Some (JStr org) \<and> trim org = [])"
      using assms(1) g by (cases projectPath) (auto simp: trim_def)
  qed
  show "\<not> str_includes baseCommand (js ''--target-org'')
            \<longrightarrow> \<not> str_includes (if str_includes baseCommand (js ''--json'') then baseCommand
                                  else baseCommand @ js '' --json'') (js ''--target-org'')"
    using sublist_across_separator[OF target_flag_no_space, of baseCommand "js ''--json''"]
      target_flag_not_in_json_flag
    by (simp add: str_includes_def json_flag_appended)
qed

theorem buildSfCommand_without_default_witness:
  "fst (buildSfCommand exampleEnv (js ''sf org list'') None (Some (js ''/proj'')) startState)
     = Inr (js ''sf org list --json'')
   \<and> \<not> str_includes (js ''sf org list --json'') (js ''--target-org'')"
proof -
  have t: "(None :: ustring option) = None \<or> (\<exists>org. (None :: ustring option) = Some org \<and> trim org = [])"
    by simp
  have a: "\<not> fs_existsSync exampleEnv
             (path_join exampleEnv [path_resolve exampleEnv (js ''/proj''), js ''.sfdx'', js ''sfdx-config.json''])"
    by code_simp
  have j: "\<not> str_includes (js ''sf org list'') (js ''--json'')" by code_simp
  have o: "\<not> str_includes (js ''sf org list'') (js ''--target-org'')" by code_simp
  have c: "js ''sf org list'' @ js '' --json'' = js ''sf org list --json''" by (simp add: js_def)
  from buildSfCommand_without_default[OF t disjI1[OF a], of "js ''sf org list''" startState] j o c
  show ?thesis by simp
qed











end
